theory Spec2Isabelle
  imports Main "HOL-Library.Sublist"
begin

section \<open>Data model\<close>

text \<open>
  The store is the relational database behind the ORM session. Each table is the list of
  its rows; \<open>journal\<close> lists the calls made on the ORM session (\<^verbatim>\<open>add\<close>, bulk
  add, \<^verbatim>\<open>flush()\<close>, \<^verbatim>\<open>commit()\<close>) in the order they were made, so that the place
  of a call among the others can be read off the store. Integrity constraints enforced by
  the database engine itself are outside the model.

  A naive \<^verbatim>\<open>datetime\<close> is represented by its ordinal in microseconds. Request
  values and CSV cells are passed through as text.
\<close>

type_synonym datetime = int

text \<open>
  A request mapping or a loaded payload: a Python dict with text keys and values, kept as
  the list of its items.
\<close>

type_synonym dict = "(string \<times> string) list"

text \<open>
  The payload of \<^verbatim>\<open>AuthControllerException\<close>: a dict from a field name to one message
  (the controller's own \<^verbatim>\<open>'invalid'\<close> entry) or to the validator's list of messages.
\<close>

datatype message_value = Text string | Texts "string list"

type_synonym messages = "(string \<times> message_value) list"

text \<open>
  The exceptions that leave the controllers. \<open>LibraryError\<close> stands for whatever a
  library call behind a parameter raises.
\<close>

datatype py_error =
    KeyError string
  | IndexError
  | TypeError
  | ODBControllerError string
  | AuthControllerException messages
  | LibraryError string

text \<open>
  Modelled from the spec: the \<^verbatim>\<open>User\<close> model, whose module \<^verbatim>\<open>app/models/user.py\<close>
  is missing. The spec: "User: id, email, password hash, name"; the controllers read
  \<^verbatim>\<open>id\<close>, \<^verbatim>\<open>email\<close>, \<^verbatim>\<open>password\<close>, \<^verbatim>\<open>first_name\<close> and \<^verbatim>\<open>last_name\<close>.
\<close>

record user =
  user_id :: int
  user_email :: string
  user_password :: string
  user_first_name :: string
  user_last_name :: string

text \<open>\<^verbatim>\<open>ODBSession\<close> of \<^verbatim>\<open>app/models/odb/session.py\<close>: columns id, user_id, date.\<close>

record odb_session =
  session_id :: string
  session_user_id :: int
  session_date :: datetime

definition ODBSession_id_length :: nat where
  "ODBSession_id_length = 15"

text \<open>
  Modelled from the spec: the GPS reading model, whose module is missing. The spec: "each
  row references a session, has a timestamp, and one or more numeric values".
\<close>

record gps_reading =
  gps_session_id :: string
  gps_lat :: string
  gps_lng :: string
  gps_date :: datetime

text \<open>
  Modelled from the spec: the engine-load, engine-RPM, fuel-level and speed reading models,
  whose modules are missing. The spec: "each row references a session, has a timestamp,
  and one or more numeric values".
\<close>

record sensor_reading =
  reading_session_id :: string
  reading_value :: string
  reading_date :: datetime

text \<open>
  The tables a call on the ORM session adds rows to, and the calls themselves:
  \<open>Add t n\<close> is the addition of \<open>n\<close> rows to table \<open>t\<close>.
\<close>

datatype table = Sessions | GPSReadings | EngineLoads | EngineRPMs | Speeds | FuelLevels

datatype orm_call = Add table nat | Flush | Commit

record db =
  users :: "user list"
  sessions :: "odb_session list"
  gps_readings :: "gps_reading list"
  engine_load_readings :: "sensor_reading list"
  engine_rpm_readings :: "sensor_reading list"
  fuel_level_readings :: "sensor_reading list"
  speed_readings :: "sensor_reading list"
  journal :: "orm_call list"

text \<open>
  Modelled from the spec: one parsed row of the uploaded table, for the missing column map
  \<^verbatim>\<open>CSV_COLUM_SENSOR_MAP\<close>. The spec: "columns selected by a fixed name map"; the
  telemetry is "GPS, engine load/RPM, fuel level, speed", each reading with a timestamp.
\<close>

record csv_row =
  row_date :: datetime
  row_latitude :: string
  row_longitude :: string
  row_engine_load :: string
  row_engine_rpm :: string
  row_speed :: string
  row_fuel_level :: string

text \<open>
  The constants of \<^verbatim>\<open>app/constants/odb.py\<close> that the controller reads:
  \<^verbatim>\<open>ODBSensorPrefixes.FULL_NAME\<close> and the labels of \<^verbatim>\<open>ODBSensorLabels\<close>. Their values
  are not part of the controller, so they are parameters of the model.
\<close>

record odb_constants =
  FULL_NAME :: string
  GPS_LATITUDE :: string
  GPS_LONGITUDE :: string
  FUEL_LEVEL :: string
  ENGINE_LOAD :: string
  ENGINE_RPM :: string

section \<open>Python primitives\<close>

text \<open>
  A computation that may raise is a value of \<open>py_error + 'a\<close>; \<open>py_bind\<close> runs the next
  statement unless the previous one raised.
\<close>

definition py_bind :: "py_error + 'a \<Rightarrow> ('a \<Rightarrow> py_error + 'b) \<Rightarrow> py_error + 'b" where
  "py_bind r f = (case r of Inl e \<Rightarrow> Inl e | Inr x \<Rightarrow> f x)"

definition dict_get :: "dict \<Rightarrow> string \<Rightarrow> string option" where
  "dict_get d k = map_of d k"

definition dict_getitem :: "dict \<Rightarrow> string \<Rightarrow> py_error + string" where
  "dict_getitem d k = (case map_of d k of None \<Rightarrow> Inl (KeyError k) | Some v \<Rightarrow> Inr v)"

definition dict_keys :: "dict \<Rightarrow> string list" where
  "dict_keys d = map fst d"

text \<open>\<^verbatim>\<open>any(xs)\<close> on strings: some element is truthy, that is, non-empty.\<close>

definition any_str :: "string list \<Rightarrow> bool" where
  "any_str xs = list_ex (\<lambda>x. x \<noteq> []) xs"

text \<open>
  \<^verbatim>\<open>re.compile(f'{p}.*').match(k)\<close> for a prefix \<open>p\<close> that is plain text, free of
  regular-expression metacharacters: the match is anchored at the start of \<open>k\<close> and
  \<^verbatim>\<open>.*\<close> may match nothing, so it succeeds exactly when \<open>k\<close> starts with \<open>p\<close>.
\<close>

definition re_match_prefix :: "string \<Rightarrow> string \<Rightarrow> bool" where
  "re_match_prefix p k = prefix p k"

text \<open>\<^verbatim>\<open>csv.iloc[0]\<close>: the first row, or IndexError on an empty table.\<close>

definition iloc0 :: "csv_row list \<Rightarrow> py_error + csv_row" where
  "iloc0 csv = (case csv of [] \<Rightarrow> Inl IndexError | r # _ \<Rightarrow> Inr r)"

section \<open>The ORM session\<close>

definition db_add_session :: "odb_session \<Rightarrow> db \<Rightarrow> db" where
  "db_add_session s d =
     d\<lparr>sessions := sessions d @ [s], journal := journal d @ [Add Sessions 1]\<rparr>"

definition db_flush :: "db \<Rightarrow> db" where
  "db_flush d = d\<lparr>journal := journal d @ [Flush]\<rparr>"

definition db_commit :: "db \<Rightarrow> db" where
  "db_commit d = d\<lparr>journal := journal d @ [Commit]\<rparr>"

text \<open>
  \<^verbatim>\<open>query(User).filter(User.email == e).first()\<close>. The query has no ORDER BY, so the
  code does not say which of several matching rows \<^verbatim>\<open>.first()\<close> returns: the choice
  is the parameter \<open>first\<close>, and \<open>first_spec\<close> is all that is known of it (None exactly
  on an empty result, otherwise one of the rows).
\<close>

definition first_spec :: "('a list \<Rightarrow> 'a option) \<Rightarrow> 'a list \<Rightarrow> bool" where
  "first_spec first rows \<longleftrightarrow> (case first rows of None \<Rightarrow> rows = [] | Some r \<Rightarrow> r \<in> set rows)"

definition query_user_by_email ::
  "(user list \<Rightarrow> user option) \<Rightarrow> db \<Rightarrow> string \<Rightarrow> user option" where
  "query_user_by_email first d e = first (filter (\<lambda>u. user_email u = e) (users d))"

text \<open>
  \<^verbatim>\<open>query(ODBSession).filter(ODBSession.id == i).first()\<close>. The controller only tests
  the result for truth, that is, whether some row has the id.
\<close>

definition query_session_by_id :: "db \<Rightarrow> string \<Rightarrow> odb_session option" where
  "query_session_by_id d i = find (\<lambda>s. session_id s = i) (sessions d)"

section \<open>Sub-controllers\<close>

text \<open>
  Modelled from the spec: \<^verbatim>\<open>SessionController.get_or_create\<close>, whose module
  \<^verbatim>\<open>app/controllers/odb/session.py\<close> is missing. The spec: "Resolve or create the
  session for this user using a client-supplied session token (get-or-create keyed by user
  id + token)". A created row takes the token as its id and the column default as its date.
\<close>

definition get_or_create :: "int \<Rightarrow> string \<Rightarrow> datetime \<Rightarrow> db \<Rightarrow> odb_session \<times> db" where
  "get_or_create uid token utcnow d =
     (case find (\<lambda>s. session_user_id s = uid \<and> session_id s = token) (sessions d) of
        Some s \<Rightarrow> (s, d)
      | None \<Rightarrow>
          (let s = \<lparr>session_id = token, session_user_id = uid, session_date = utcnow\<rparr>
           in (s, db_add_session s d)))"

text \<open>
  Modelled from the spec: \<^verbatim>\<open>GPSController.register_gps_reading\<close>, whose module
  \<^verbatim>\<open>app/controllers/odb/gps.py\<close> is missing. The spec: "register-single(session,
  value(s), timestamp) \<rightarrow> inserted row"; "values are passed through as-is".
\<close>

definition register_gps_reading ::
  "odb_session \<Rightarrow> string \<Rightarrow> string \<Rightarrow> datetime \<Rightarrow> db \<Rightarrow> gps_reading \<times> db" where
  "register_gps_reading s lat lng date d =
     (let g = \<lparr>gps_session_id = session_id s, gps_lat = lat, gps_lng = lng, gps_date = date\<rparr>
      in (g, d\<lparr>gps_readings := gps_readings d @ [g],
               journal := journal d @ [Add GPSReadings 1]\<rparr>))"

text \<open>
  Modelled from the spec: the row a scalar sensor sub-controller builds, for the missing
  reading models. The spec: "each row references a session, has a timestamp, and one or
  more numeric values".
\<close>

definition mk_reading :: "odb_session \<Rightarrow> string \<Rightarrow> datetime \<Rightarrow> sensor_reading" where
  "mk_reading s v date =
     \<lparr>reading_session_id = session_id s, reading_value = v, reading_date = date\<rparr>"

text \<open>
  Modelled from the spec: \<^verbatim>\<open>FuelController.register_fuel_level\<close>, whose module
  \<^verbatim>\<open>app/controllers/odb/fuel.py\<close> is missing. The spec: "register-single(session,
  value(s), timestamp) \<rightarrow> inserted row".
\<close>

definition register_fuel_level ::
  "odb_session \<Rightarrow> string \<Rightarrow> datetime \<Rightarrow> db \<Rightarrow> sensor_reading \<times> db" where
  "register_fuel_level s v date d =
     (let r = mk_reading s v date
      in (r, d\<lparr>fuel_level_readings := fuel_level_readings d @ [r],
               journal := journal d @ [Add FuelLevels 1]\<rparr>))"

text \<open>
  Modelled from the spec: \<^verbatim>\<open>EngineController.register_load\<close>, whose module
  \<^verbatim>\<open>app/controllers/odb/engine.py\<close> is missing. The spec: "register-single(session,
  value(s), timestamp) \<rightarrow> inserted row".
\<close>

definition register_load ::
  "odb_session \<Rightarrow> string \<Rightarrow> datetime \<Rightarrow> db \<Rightarrow> sensor_reading \<times> db" where
  "register_load s v date d =
     (let r = mk_reading s v date
      in (r, d\<lparr>engine_load_readings := engine_load_readings d @ [r],
               journal := journal d @ [Add EngineLoads 1]\<rparr>))"

text \<open>
  Modelled from the spec: \<^verbatim>\<open>EngineController.register_rpm\<close>, whose module
  \<^verbatim>\<open>app/controllers/odb/engine.py\<close> is missing. The spec: "register-single(session,
  value(s), timestamp) \<rightarrow> inserted row".
\<close>

definition register_rpm ::
  "odb_session \<Rightarrow> string \<Rightarrow> datetime \<Rightarrow> db \<Rightarrow> sensor_reading \<times> db" where
  "register_rpm s v date d =
     (let r = mk_reading s v date
      in (r, d\<lparr>engine_rpm_readings := engine_rpm_readings d @ [r],
               journal := journal d @ [Add EngineRPMs 1]\<rparr>))"

text \<open>
  Modelled from the spec: the GPS row built from one CSV row, for the missing
  \<^verbatim>\<open>GPSController\<close>. The spec: "mapping fixed CSV column names to row fields".
\<close>

definition gps_of_row :: "odb_session \<Rightarrow> csv_row \<Rightarrow> gps_reading" where
  "gps_of_row s r =
     \<lparr>gps_session_id = session_id s, gps_lat = row_latitude r, gps_lng = row_longitude r,
      gps_date = row_date r\<rparr>"

text \<open>
  Modelled from the spec: \<^verbatim>\<open>GPSController.register_gps_from_csv\<close>, whose module is
  missing. The spec: "register-from-csv(session, table, flush=bool) \<rightarrow> bulk inserted
  rows, mapping fixed CSV column names to row fields"; "for every row in the table
  delegate bulk-insert to each sub-controller (GPS, engine load, RPM, speed, fuel),
  deferring a single flush until each sub-controller's batch is added".
\<close>

definition register_gps_from_csv :: "odb_session \<Rightarrow> csv_row list \<Rightarrow> bool \<Rightarrow> db \<Rightarrow> db" where
  "register_gps_from_csv s csv flush d =
     (let d' = d\<lparr>gps_readings := gps_readings d @ map (gps_of_row s) csv,
                   journal := journal d @ [Add GPSReadings (length csv)]\<rparr>
      in if flush then db_flush d' else d')"

text \<open>
  Modelled from the spec: \<^verbatim>\<open>EngineController.register_load_from_csv\<close>, whose module
  is missing. The spec: "register-from-csv(session, table, flush=bool) \<rightarrow> bulk inserted
  rows", one row of the engine-load table for every row of the upload.
\<close>

definition register_load_from_csv :: "odb_session \<Rightarrow> csv_row list \<Rightarrow> bool \<Rightarrow> db \<Rightarrow> db" where
  "register_load_from_csv s csv flush d =
     (let d' = d\<lparr>engine_load_readings := engine_load_readings d @
                    map (\<lambda>r. mk_reading s (row_engine_load r) (row_date r)) csv,
                   journal := journal d @ [Add EngineLoads (length csv)]\<rparr>
      in if flush then db_flush d' else d')"

text \<open>
  Modelled from the spec: \<^verbatim>\<open>EngineController.register_rpm_from_csv\<close>, whose module is
  missing. The spec: "register-from-csv(session, table, flush=bool) \<rightarrow> bulk inserted
  rows", one row of the engine-RPM table for every row of the upload.
\<close>

definition register_rpm_from_csv :: "odb_session \<Rightarrow> csv_row list \<Rightarrow> bool \<Rightarrow> db \<Rightarrow> db" where
  "register_rpm_from_csv s csv flush d =
     (let d' = d\<lparr>engine_rpm_readings := engine_rpm_readings d @
                    map (\<lambda>r. mk_reading s (row_engine_rpm r) (row_date r)) csv,
                   journal := journal d @ [Add EngineRPMs (length csv)]\<rparr>
      in if flush then db_flush d' else d')"

text \<open>
  Modelled from the spec: \<^verbatim>\<open>EngineController.register_speed_from_csv\<close>, whose module
  is missing. The spec: "register-from-csv(session, table, flush=bool) \<rightarrow> bulk inserted
  rows", one row of the speed table for every row of the upload.
\<close>

definition register_speed_from_csv :: "odb_session \<Rightarrow> csv_row list \<Rightarrow> bool \<Rightarrow> db \<Rightarrow> db" where
  "register_speed_from_csv s csv flush d =
     (let d' = d\<lparr>speed_readings := speed_readings d @
                    map (\<lambda>r. mk_reading s (row_speed r) (row_date r)) csv,
                   journal := journal d @ [Add Speeds (length csv)]\<rparr>
      in if flush then db_flush d' else d')"

text \<open>
  Modelled from the spec: \<^verbatim>\<open>FuelController.register_fuel_level_from_csv\<close>, whose
  module is missing. The spec: "register-from-csv(session, table, flush=bool) \<rightarrow> bulk
  inserted rows", one row of the fuel-level table for every row of the upload.
\<close>

definition register_fuel_level_from_csv ::
  "odb_session \<Rightarrow> csv_row list \<Rightarrow> bool \<Rightarrow> db \<Rightarrow> db" where
  "register_fuel_level_from_csv s csv flush d =
     (let d' = d\<lparr>fuel_level_readings := fuel_level_readings d @
                    map (\<lambda>r. mk_reading s (row_fuel_level r) (row_date r)) csv,
                   journal := journal d @ [Add FuelLevels (length csv)]\<rparr>
      in if flush then db_flush d' else d')"

section \<open>ODBController\<close>

text \<open>
  \<^verbatim>\<open>ODBController._resolve_user\<close>. \<^verbatim>\<open>not user_email\<close> holds when the key is absent
  (\<^verbatim>\<open>data.get\<close> gives None) and when its value is the empty string.
\<close>

definition resolve_user ::
  "(user list \<Rightarrow> user option) \<Rightarrow> db \<Rightarrow> dict \<Rightarrow> py_error + user" where
  "resolve_user first d data =
     (let user_email = dict_get data ''eml'' in
      if user_email = None \<or> user_email = Some []
      then Inl (ODBControllerError ''User email not found'')
      else (case query_user_by_email first d (the user_email) of
              None \<Rightarrow> Inl (ODBControllerError ''User does not exist'')
            | Some u \<Rightarrow> Inr u))"

definition has_full_name_keys :: "odb_constants \<Rightarrow> dict \<Rightarrow> bool" where
  "has_full_name_keys C data =
     any_str (filter (re_match_prefix (FULL_NAME C)) (dict_keys data))"

text \<open>
  \<^verbatim>\<open>LOGGER.info(event, **kw)\<close>. The message is passed by position to the method's
  parameter \<^verbatim>\<open>event\<close>, so a keyword argument named \<^verbatim>\<open>event\<close> is a second value
  for that parameter and Python raises TypeError before the method runs. What the logging
  library does with any other call is the parameter \<open>emit\<close>: it may reject further names
  (such as \<^verbatim>\<open>self\<close>) or return. The logger never touches the store.
\<close>

definition logger_info ::
  "(string \<Rightarrow> dict \<Rightarrow> py_error + unit) \<Rightarrow> string \<Rightarrow> dict \<Rightarrow> py_error + unit" where
  "logger_info emit event kw =
     (if ''event'' \<in> set (dict_keys kw) then Inl TypeError else emit event kw)"

text \<open>
  \<^verbatim>\<open>ODBController.process_sensor_params\<close>. \<open>now\<close> is \<^verbatim>\<open>datetime.datetime.now()\<close>,
  \<open>utcnow\<close> the column default of a created session, \<open>first\<close> the row choice of
  \<^verbatim>\<open>.first()\<close> in the user query, \<open>emit\<close> the logging library. The first statement
  logs with the whole request as keyword arguments. The later logger calls pass no request
  key: their keyword names are fixed by the code (\<^verbatim>\<open>user_id\<close>) or are the column
  names of a model row (\<^verbatim>\<open>to_dict()\<close>); they are taken to return and are left out.
\<close>

definition process_sensor_params ::
  "odb_constants \<Rightarrow> (string \<Rightarrow> dict \<Rightarrow> py_error + unit) \<Rightarrow> (user list \<Rightarrow> user option) \<Rightarrow>
   datetime \<Rightarrow> datetime \<Rightarrow> dict \<Rightarrow> db \<Rightarrow> py_error + db" where
  "process_sensor_params C emit first now utcnow data d =
     py_bind (logger_info emit ''Receiving sensor data from TORQUE'' data) (\<lambda>_.
      if has_full_name_keys C data then Inr d
      else
        py_bind (resolve_user first d data) (\<lambda>user.
        py_bind (dict_getitem data ''session'') (\<lambda>token.
          let (session, d0) = get_or_create (user_id user) token utcnow d;
              data_keys = dict_keys data
          in
          py_bind (if GPS_LATITUDE C \<in> set data_keys \<and> GPS_LONGITUDE C \<in> set data_keys
                then py_bind (dict_getitem data (GPS_LATITUDE C)) (\<lambda>lat.
                     py_bind (dict_getitem data (GPS_LONGITUDE C)) (\<lambda>lng.
                       Inr (snd (register_gps_reading session lat lng now d0))))
                else Inr d0) (\<lambda>d1.
          py_bind (if FUEL_LEVEL C \<in> set data_keys
                then py_bind (dict_getitem data (FUEL_LEVEL C)) (\<lambda>v.
                       Inr (snd (register_fuel_level session v now d1)))
                else Inr d1) (\<lambda>d2.
          py_bind (if ENGINE_LOAD C \<in> set data_keys
                then py_bind (dict_getitem data (ENGINE_LOAD C)) (\<lambda>v.
                       Inr (snd (register_load session v now d2)))
                else Inr d2) (\<lambda>d3.
          if ENGINE_RPM C \<in> set data_keys
          then py_bind (dict_getitem data (ENGINE_RPM C)) (\<lambda>v.
                 Inr (snd (register_rpm session v now d3)))
          else Inr d3))))))"

text \<open>
  \<^verbatim>\<open>str(start_datetime.timestamp()).replace('.', '')[:12]\<close>, from the text of
  \<^verbatim>\<open>str(start_datetime.timestamp())\<close>.
\<close>

definition gen_session_id :: "string \<Rightarrow> string" where
  "gen_session_id ts = take 12 (filter (\<lambda>c. c \<noteq> CHR ''.'') ts)"

text \<open>
  \<^verbatim>\<open>ODBController.process_csv\<close>. Three calls leave the controller and are parameters,
  each of which may raise:
  \<open>read_csv\<close> is \<^verbatim>\<open>pandas.read_csv(StringIO(csv_file.read().decode('utf-8')), usecols=...)\<close>,
  \<open>resolve_date\<close> is \<^verbatim>\<open>self._resolve_date_from_csv_row\<close> of the base controller, and
  \<open>timestamp_str\<close> is \<^verbatim>\<open>str(dt.timestamp())\<close>.
\<close>

definition process_csv ::
  "('f \<Rightarrow> py_error + csv_row list) \<Rightarrow> (csv_row \<Rightarrow> py_error + datetime) \<Rightarrow>
   (datetime \<Rightarrow> py_error + string) \<Rightarrow> user \<Rightarrow> 'f \<Rightarrow> db \<Rightarrow> py_error + db" where
  "process_csv read_csv resolve_date timestamp_str user csv_file d =
     py_bind (read_csv csv_file) (\<lambda>csv.
     py_bind (iloc0 csv) (\<lambda>row0.
     py_bind (resolve_date row0) (\<lambda>start_datetime.
     py_bind (timestamp_str start_datetime) (\<lambda>ts.
       let gen_id = gen_session_id ts in
       if query_session_by_id d gen_id \<noteq> None then Inr d
       else
         let session = \<lparr>session_id = gen_id, session_user_id = user_id user,
                        session_date = start_datetime\<rparr>;
             d1 = db_flush (db_add_session session d);
             d2 = register_gps_from_csv session csv True d1;
             d3 = register_load_from_csv session csv True d2;
             d4 = register_rpm_from_csv session csv True d3;
             d5 = register_speed_from_csv session csv True d4;
             d6 = register_fuel_level_from_csv session csv True d5
         in Inr (db_commit d6)))))"

section \<open>AuthController\<close>



section \<open>Auxiliary notions for the statements\<close>

text \<open>
  \<open>appended n P before after\<close>: the table \<open>after\<close> is the table \<open>before\<close> followed by
  exactly \<open>n\<close> new rows, each of which satisfies \<open>P\<close>.
\<close>

definition appended :: "nat \<Rightarrow> ('a \<Rightarrow> bool) \<Rightarrow> 'a list \<Rightarrow> 'a list \<Rightarrow> bool" where
  "appended n P before after \<longleftrightarrow>
     take (length before) after = before \<and> length after = length before + n \<and>
     list_all P (drop (length before) after)"

text \<open>
  The four dispatch blocks of \<^verbatim>\<open>process_sensor_params\<close> once user and session are
  resolved, as one state transformer. A key found in \<^verbatim>\<open>data_keys\<close> is a key of
  \<^verbatim>\<open>data\<close>, so the item lookups inside the blocks cannot raise.
\<close>

definition sensor_steps ::
  "odb_constants \<Rightarrow> datetime \<Rightarrow> dict \<Rightarrow> odb_session \<Rightarrow> db \<Rightarrow> db" where
  "sensor_steps C now data s d0 =
     (let ks = set (dict_keys data);
          d1 = (if GPS_LATITUDE C \<in> ks \<and> GPS_LONGITUDE C \<in> ks
                then snd (register_gps_reading s (the (map_of data (GPS_LATITUDE C)))
                            (the (map_of data (GPS_LONGITUDE C))) now d0)
                else d0);
          d2 = (if FUEL_LEVEL C \<in> ks
                then snd (register_fuel_level s (the (map_of data (FUEL_LEVEL C))) now d1)
                else d1);
          d3 = (if ENGINE_LOAD C \<in> ks
                then snd (register_load s (the (map_of data (ENGINE_LOAD C))) now d2)
                else d2)
      in if ENGINE_RPM C \<in> ks
         then snd (register_rpm s (the (map_of data (ENGINE_RPM C))) now d3)
         else d3)"

section \<open>Concrete inputs\<close>

definition ex_constants :: odb_constants where
  "ex_constants =
     \<lparr>FULL_NAME = ''userFullName'', GPS_LATITUDE = ''kff1006'', GPS_LONGITUDE = ''kff1005'',
      FUEL_LEVEL = ''k2f'', ENGINE_LOAD = ''k4'', ENGINE_RPM = ''kc''\<rparr>"

definition ex_user :: user where
  "ex_user =
     \<lparr>user_id = 7, user_email = ''ada@example.org'', user_password = ''bcrypt:secret'',
      user_first_name = ''Ada'', user_last_name = ''Lovelace''\<rparr>"

definition ex_db :: db where
  "ex_db =
     \<lparr>users = [ex_user], sessions = [], gps_readings = [], engine_load_readings = [],
      engine_rpm_readings = [], fuel_level_readings = [], speed_readings = [],
      journal = []\<rparr>"

definition ex_row1 :: csv_row where
  "ex_row1 =
     \<lparr>row_date = 1600000000125000, row_latitude = ''-5.83'', row_longitude = ''-35.20'',
      row_engine_load = ''31.4'', row_engine_rpm = ''1520'', row_speed = ''42'',
      row_fuel_level = ''63.1''\<rparr>"

definition ex_row2 :: csv_row where
  "ex_row2 =
     \<lparr>row_date = 1600000001125000, row_latitude = ''-5.84'', row_longitude = ''-35.21'',
      row_engine_load = ''33.0'', row_engine_rpm = ''1610'', row_speed = ''45'',
      row_fuel_level = ''63.0''\<rparr>"

text \<open>A store in which the session derived from \<open>ex_row1\<close> has been ingested before.\<close>

definition ex_db_uploaded :: db where
  "ex_db_uploaded =
     ex_db\<lparr>sessions := [\<lparr>session_id = ''160000000012'', session_user_id = 7,
                            session_date = 1600000000125000\<rparr>]\<rparr>"

definition ex_resolve_date :: "csv_row \<Rightarrow> py_error + datetime" where
  "ex_resolve_date r = Inr (row_date r)"

definition ex_timestamp_str :: "datetime \<Rightarrow> py_error + string" where
  "ex_timestamp_str t =
     (if t = 1600000000125000 then Inr ''1600000000.125''
      else Inl (LibraryError ''timestamp''))"



definition ex_metadata_request :: dict where
  "ex_metadata_request = [(''userFullName0d'', ''Vehicle speed''), (''kff1006'', ''-5.83'')]"

definition ex_gps_request :: dict where
  "ex_gps_request =
     [(''eml'', ''ada@example.org''), (''session'', ''1600000000125''),
      (''kff1006'', ''-5.83''), (''kff1005'', ''-35.20'')]"

definition ex_bare_request :: dict where
  "ex_bare_request = [(''eml'', ''ada@example.org''), (''session'', ''1600000000125'')]"

definition ex_no_session_request :: dict where
  "ex_no_session_request = [(''eml'', ''ada@example.org''), (''kc'', ''1520'')]"

text \<open>A row choice for \<^verbatim>\<open>.first()\<close>: the last row of the result.\<close>

definition ex_first :: "user list \<Rightarrow> user option" where
  "ex_first rows = (if rows = [] then None else Some (last rows))"

text \<open>A logging library that rejects the keyword \<^verbatim>\<open>self\<close> and accepts the rest.\<close>

definition ex_emit :: "string \<Rightarrow> dict \<Rightarrow> py_error + unit" where
  "ex_emit event kw = (if ''self'' \<in> set (dict_keys kw) then Inl TypeError else Inr ())"

text \<open>Requests that also carry a key named \<^verbatim>\<open>event\<close>.\<close>

definition ev_metadata_request :: dict where
  "ev_metadata_request = [(''userFullName0d'', ''Vehicle speed''), (''event'', ''start'')]"

definition ev_gps_request :: dict where
  "ev_gps_request =
     [(''eml'', ''ada@example.org''), (''session'', ''1600000000125''),
      (''kff1006'', ''-5.83''), (''kff1005'', ''-35.20''), (''event'', ''start'')]"

definition ev_no_session_request :: dict where
  "ev_no_session_request = [(''eml'', ''ada@example.org''), (''event'', ''start'')]"

definition ev_bare_request :: dict where
  "ev_bare_request =
     [(''eml'', ''ada@example.org''), (''session'', ''1600000000125''), (''event'', ''start'')]"

section \<open>Basic facts\<close>

lemma py_bind_Inr [simp]: "py_bind (Inr x) f = f x"
  by (simp add: py_bind_def)

lemma py_bind_Inl [simp]: "py_bind (Inl e) f = Inl e"
  by (simp add: py_bind_def)

lemma find_not_None_iff: "find P xs \<noteq> None \<longleftrightarrow> (\<exists>x\<in>set xs. P x)"
  by (induction xs) auto

lemma find_Some_holds: "find P xs = Some x \<Longrightarrow> P x \<and> x \<in> set xs"
  by (induction xs) (auto split: if_splits)


lemma in_dict_keys_iff: "k \<in> set (dict_keys d) \<longleftrightarrow> map_of d k \<noteq> None"
  by (simp add: dict_keys_def map_of_eq_None_iff)

lemma dict_getitem_key:
  "k \<in> set (dict_keys data) \<Longrightarrow> dict_getitem data k = Inr (the (map_of data k))"
  by (auto simp: dict_getitem_def in_dict_keys_iff)

lemma appended_map: "(\<And>x. P (f x)) \<Longrightarrow> appended (length xs) P ys (ys @ map f xs)"
  by (simp add: appended_def list_all_iff)

lemma commit_fields [simp]:
  "users (db_commit d) = users d" "sessions (db_commit d) = sessions d"
  "gps_readings (db_commit d) = gps_readings d"
  "engine_load_readings (db_commit d) = engine_load_readings d"
  "engine_rpm_readings (db_commit d) = engine_rpm_readings d"
  "speed_readings (db_commit d) = speed_readings d"
  "fuel_level_readings (db_commit d) = fuel_level_readings d"
  "journal (db_commit d) = journal d @ [Commit]"
  by (simp_all add: db_commit_def)

section \<open>CSV upload\<close>

lemma process_csv_existing:
  assumes "read_csv csv_file = Inr (row0 # rest)"
      and "resolve_date row0 = Inr start"
      and "timestamp_str start = Inr ts"
      and "gen_session_id ts \<in> session_id ` set (sessions d)"
  shows "process_csv read_csv resolve_date timestamp_str user csv_file d = Inr d"
proof -
  from assms(4) have "query_session_by_id d (gen_session_id ts) \<noteq> None"
    unfolding query_session_by_id_def find_not_None_iff by auto
  with assms(1-3) show ?thesis
    by (simp add: process_csv_def iloc0_def Let_def)
qed

lemma process_csv_new_session:
  assumes "read_csv csv_file = Inr (row0 # rest)"
      and "resolve_date row0 = Inr start"
      and "timestamp_str start = Inr ts"
      and "gen_session_id ts \<notin> session_id ` set (sessions d)"
  shows "process_csv read_csv resolve_date timestamp_str user csv_file d =
    (let s = \<lparr>session_id = gen_session_id ts, session_user_id = user_id user,
              session_date = start\<rparr>;
         csv = row0 # rest
     in Inr (db_commit
       (register_fuel_level_from_csv s csv True
       (register_speed_from_csv s csv True
       (register_rpm_from_csv s csv True
       (register_load_from_csv s csv True
       (register_gps_from_csv s csv True
       (db_flush (db_add_session s d)))))))))"
proof -
  from assms(4) have "query_session_by_id d (gen_session_id ts) = None"
    unfolding query_session_by_id_def find_None_iff by (metis imageI)
  with assms(1-3) show ?thesis
    by (simp add: process_csv_def iloc0_def Let_def)
qed

lemma csv_state_fields:
  fixes s csv d
  defines "d' \<equiv> register_fuel_level_from_csv s csv True
       (register_speed_from_csv s csv True
       (register_rpm_from_csv s csv True
       (register_load_from_csv s csv True
       (register_gps_from_csv s csv True
       (db_flush (db_add_session s d))))))"
  shows "users d' = users d"
    and "sessions d' = sessions d @ [s]"
    and "gps_readings d' = gps_readings d @ map (gps_of_row s) csv"
    and "engine_load_readings d' =
           engine_load_readings d @ map (\<lambda>r. mk_reading s (row_engine_load r) (row_date r)) csv"
    and "engine_rpm_readings d' =
           engine_rpm_readings d @ map (\<lambda>r. mk_reading s (row_engine_rpm r) (row_date r)) csv"
    and "speed_readings d' =
           speed_readings d @ map (\<lambda>r. mk_reading s (row_speed r) (row_date r)) csv"
    and "fuel_level_readings d' =
           fuel_level_readings d @ map (\<lambda>r. mk_reading s (row_fuel_level r) (row_date r)) csv"
    and "journal d' = journal d @
           [Add Sessions 1, Flush, Add GPSReadings (length csv), Flush,
            Add EngineLoads (length csv), Flush, Add EngineRPMs (length csv), Flush,
            Add Speeds (length csv), Flush, Add FuelLevels (length csv), Flush]"
  unfolding d'_def
  by (simp_all add: register_fuel_level_from_csv_def register_speed_from_csv_def
      register_rpm_from_csv_def register_load_from_csv_def register_gps_from_csv_def
      db_flush_def db_add_session_def Let_def)

lemma ex_upload_facts:
  "(Inr [ex_row1, ex_row2] :: py_error + csv_row list) = Inr (ex_row1 # [ex_row2])"
  "ex_resolve_date ex_row1 = Inr 1600000000125000"
  "ex_timestamp_str 1600000000125000 = Inr ''1600000000.125''"
  "gen_session_id ''1600000000.125'' = ''160000000012''"
  by (simp_all add: ex_resolve_date_def ex_row1_def ex_timestamp_str_def gen_session_id_def)

text \<open>
  C1. When the session id derived from the first row's timestamp is already the id of a
  stored session, \<open>process_csv\<close> returns normally and the store it leaves is the store
  it found: no session row and no reading row is added, nothing is flushed or committed.
\<close>

theorem process_csv_existing_session_noop:
  assumes "read_csv csv_file = Inr (row0 # rest)"
      and "resolve_date row0 = Inr start"
      and "timestamp_str start = Inr ts"
      and "gen_session_id ts \<in> session_id ` set (sessions d)"
  shows "process_csv read_csv resolve_date timestamp_str user csv_file d = Inr d"
  using assms by (rule process_csv_existing)

theorem process_csv_existing_session_noop_witness:
  "gen_session_id ''1600000000.125'' \<in> session_id ` set (sessions ex_db_uploaded) \<and>
   process_csv Inr ex_resolve_date ex_timestamp_str ex_user [ex_row1, ex_row2] ex_db_uploaded =
     Inr ex_db_uploaded"
proof -
  have h: "gen_session_id ''1600000000.125'' \<in> session_id ` set (sessions ex_db_uploaded)"
    by (simp add: ex_upload_facts ex_db_uploaded_def)
  from process_csv_existing_session_noop [where read_csv = Inr and user = ex_user
      and resolve_date = ex_resolve_date and timestamp_str = ex_timestamp_str,
      OF ex_upload_facts(1,2,3) h] h
  show ?thesis by simp
qed

text \<open>
  C2. When the derived session id is new, \<open>process_csv\<close> on a table of N rows returns
  a store that holds one more session row, carrying the derived id and the uploader's
  user id, and exactly N more rows in each of the GPS, engine-load, engine-RPM, speed and
  fuel-level tables, every one of them referencing the derived id. The calls it has made
  on the ORM session are, in this order: the addition of the session and a flush; for
  each of the five sub-controllers the addition of its N rows and a flush; and then one
  commit, which is the last call and the only commit.
\<close>

theorem process_csv_new_session_rows:
  assumes "read_csv csv_file = Inr (row0 # rest)"
      and "resolve_date row0 = Inr start"
      and "timestamp_str start = Inr ts"
      and "gen_session_id ts \<notin> session_id ` set (sessions d)"
      and "n = length (row0 # rest)"
  shows "\<exists>d'. process_csv read_csv resolve_date timestamp_str user csv_file d = Inr d'
           \<and> users d' = users d
           \<and> appended 1 (\<lambda>s. session_id s = gen_session_id ts \<and>
                               session_user_id s = user_id user)
                 (sessions d) (sessions d')
           \<and> appended n (\<lambda>g. gps_session_id g = gen_session_id ts)
                 (gps_readings d) (gps_readings d')
           \<and> appended n (\<lambda>r. reading_session_id r = gen_session_id ts)
                 (engine_load_readings d) (engine_load_readings d')
           \<and> appended n (\<lambda>r. reading_session_id r = gen_session_id ts)
                 (engine_rpm_readings d) (engine_rpm_readings d')
           \<and> appended n (\<lambda>r. reading_session_id r = gen_session_id ts)
                 (speed_readings d) (speed_readings d')
           \<and> appended n (\<lambda>r. reading_session_id r = gen_session_id ts)
                 (fuel_level_readings d) (fuel_level_readings d')
           \<and> journal d' = journal d @
                 [Add Sessions 1, Flush, Add GPSReadings n, Flush, Add EngineLoads n, Flush,
                  Add EngineRPMs n, Flush, Add Speeds n, Flush, Add FuelLevels n, Flush,
                  Commit]"
proof -
  define s where "s = \<lparr>session_id = gen_session_id ts, session_user_id = user_id user,
              session_date = start\<rparr>"
  define csv where "csv = row0 # rest"
  define d0 where "d0 = register_fuel_level_from_csv s csv True
       (register_speed_from_csv s csv True
       (register_rpm_from_csv s csv True
       (register_load_from_csv s csv True
       (register_gps_from_csv s csv True
       (db_flush (db_add_session s d))))))"
  define d' where "d' = db_commit d0"
  have n: "n = length csv"
    by (simp add: assms(5) csv_def)
  have res: "process_csv read_csv resolve_date timestamp_str user csv_file d = Inr d'"
    using process_csv_new_session[where read_csv = read_csv and resolve_date = resolve_date
        and timestamp_str = timestamp_str and user = user, OF assms(1-4)]
    by (simp add: Let_def s_def csv_def d0_def d'_def)
  have sid: "session_id s = gen_session_id ts" "session_user_id s = user_id user"
    by (simp_all add: s_def)
  note f0 = csv_state_fields[of s csv d, folded d0_def]
  have f: "users d' = users d"
    "sessions d' = sessions d @ [s]"
    "gps_readings d' = gps_readings d @ map (gps_of_row s) csv"
    "engine_load_readings d' =
       engine_load_readings d @ map (\<lambda>r. mk_reading s (row_engine_load r) (row_date r)) csv"
    "engine_rpm_readings d' =
       engine_rpm_readings d @ map (\<lambda>r. mk_reading s (row_engine_rpm r) (row_date r)) csv"
    "speed_readings d' =
       speed_readings d @ map (\<lambda>r. mk_reading s (row_speed r) (row_date r)) csv"
    "fuel_level_readings d' =
       fuel_level_readings d @ map (\<lambda>r. mk_reading s (row_fuel_level r) (row_date r)) csv"
    by (simp_all add: d'_def f0)
  have j: "journal d' = journal d @
                 [Add Sessions 1, Flush, Add GPSReadings n, Flush, Add EngineLoads n, Flush,
                  Add EngineRPMs n, Flush, Add Speeds n, Flush, Add FuelLevels n, Flush,
                  Commit]"
    by (simp add: d'_def f0 n)
  have 1: "appended 1 (\<lambda>s. session_id s = gen_session_id ts \<and>
                              session_user_id s = user_id user)
                 (sessions d) (sessions d')"
    by (simp add: f appended_def sid)
  have 2: "appended n (\<lambda>g. gps_session_id g = gen_session_id ts)
                 (gps_readings d) (gps_readings d')"
    unfolding f n by (rule appended_map) (simp add: gps_of_row_def sid)
  have 3: "appended n (\<lambda>r. reading_session_id r = gen_session_id ts)
                 (engine_load_readings d) (engine_load_readings d')"
    unfolding f n by (rule appended_map) (simp add: mk_reading_def sid)
  have 4: "appended n (\<lambda>r. reading_session_id r = gen_session_id ts)
                 (engine_rpm_readings d) (engine_rpm_readings d')"
    unfolding f n by (rule appended_map) (simp add: mk_reading_def sid)
  have 5: "appended n (\<lambda>r. reading_session_id r = gen_session_id ts)
                 (speed_readings d) (speed_readings d')"
    unfolding f n by (rule appended_map) (simp add: mk_reading_def sid)
  have 6: "appended n (\<lambda>r. reading_session_id r = gen_session_id ts)
                 (fuel_level_readings d) (fuel_level_readings d')"
    unfolding f n by (rule appended_map) (simp add: mk_reading_def sid)
  from res f(1) 1 2 3 4 5 6 j show ?thesis
    by blast
qed

theorem process_csv_new_session_rows_witness:
  "\<exists>d'. process_csv Inr ex_resolve_date ex_timestamp_str ex_user [ex_row1, ex_row2] ex_db =
           Inr d'
      \<and> map session_id (sessions d') = [''160000000012'']
      \<and> length (gps_readings d') = 2
      \<and> length (engine_load_readings d') = 2
      \<and> length (engine_rpm_readings d') = 2
      \<and> length (speed_readings d') = 2
      \<and> length (fuel_level_readings d') = 2
      \<and> journal d' =
           [Add Sessions 1, Flush, Add GPSReadings 2, Flush, Add EngineLoads 2, Flush,
            Add EngineRPMs 2, Flush, Add Speeds 2, Flush, Add FuelLevels 2, Flush, Commit]"
proof -
  have h: "gen_session_id ''1600000000.125'' \<notin> session_id ` set (sessions ex_db)"
    by (simp add: ex_db_def)
  have n: "(2::nat) = length (ex_row1 # [ex_row2])"
    by simp
  from process_csv_new_session_rows [where read_csv = Inr and user = ex_user
      and resolve_date = ex_resolve_date and timestamp_str = ex_timestamp_str,
      OF ex_upload_facts(1,2,3) h n]
  obtain d' where r:
    "process_csv Inr ex_resolve_date ex_timestamp_str ex_user [ex_row1, ex_row2] ex_db =
       Inr d'"
    and s: "appended 1 (\<lambda>s. session_id s = gen_session_id ''1600000000.125'' \<and>
                               session_user_id s = user_id ex_user)
              (sessions ex_db) (sessions d')"
    and g: "appended 2 (\<lambda>g. gps_session_id g = gen_session_id ''1600000000.125'')
              (gps_readings ex_db) (gps_readings d')"
    and l: "appended 2 (\<lambda>r. reading_session_id r = gen_session_id ''1600000000.125'')
              (engine_load_readings ex_db) (engine_load_readings d')"
    and m: "appended 2 (\<lambda>r. reading_session_id r = gen_session_id ''1600000000.125'')
              (engine_rpm_readings ex_db) (engine_rpm_readings d')"
    and v: "appended 2 (\<lambda>r. reading_session_id r = gen_session_id ''1600000000.125'')
              (speed_readings ex_db) (speed_readings d')"
    and u: "appended 2 (\<lambda>r. reading_session_id r = gen_session_id ''1600000000.125'')
              (fuel_level_readings ex_db) (fuel_level_readings d')"
    and j: "journal d' = journal ex_db @
              [Add Sessions 1, Flush, Add GPSReadings 2, Flush, Add EngineLoads 2, Flush,
               Add EngineRPMs 2, Flush, Add Speeds 2, Flush, Add FuelLevels 2, Flush, Commit]"
    by blast
  from s have "length (sessions d') = 1 \<and>
      list_all (\<lambda>s. session_id s = ''160000000012'') (sessions d')"
    by (auto simp: appended_def ex_db_def ex_upload_facts(4) list_all_iff)
  then have s': "map session_id (sessions d') = [''160000000012'']"
    by (cases "sessions d'") simp_all
  from g l m v u have n:
    "length (gps_readings d') = 2" "length (engine_load_readings d') = 2"
    "length (engine_rpm_readings d') = 2" "length (speed_readings d') = 2"
    "length (fuel_level_readings d') = 2"
    by (simp_all add: appended_def ex_db_def)
  from j have j': "journal d' =
           [Add Sessions 1, Flush, Add GPSReadings 2, Flush, Add EngineLoads 2, Flush,
            Add EngineRPMs 2, Flush, Add Speeds 2, Flush, Add FuelLevels 2, Flush, Commit]"
    by (simp add: ex_db_def)
  show ?thesis
    by (rule exI[of _ d']) (simp only: r s' n j' simp_thms)
qed

lemma gen_session_id_length: "length (gen_session_id ts) \<le> 12"
  by (simp add: gen_session_id_def)

text \<open>
  C3. Let \<open>ts\<close> be the text of the first row's timestamp in epoch seconds and \<open>gid\<close> that
  text with every dot removed, cut to its first 12 characters. Then \<open>gid\<close> is the session
  id \<open>process_csv\<close> works with: it is the id whose presence in the store makes the upload
  a no-op, and otherwise the id of the session row that is created. It has at most 12
  characters and so fits the id column of \<^verbatim>\<open>ODBSession\<close>.
\<close>

theorem process_csv_session_id_derivation:
  assumes "read_csv csv_file = Inr (row0 # rest)"
      and "resolve_date row0 = Inr start"
      and "timestamp_str start = Inr ts"
      and "gid = take 12 (filter (\<lambda>c. c \<noteq> CHR ''.'') ts)"
  shows "length gid \<le> 12 \<and> length gid \<le> ODBSession_id_length \<and>
         (if gid \<in> session_id ` set (sessions d)
          then process_csv read_csv resolve_date timestamp_str user csv_file d = Inr d
          else \<exists>d'. process_csv read_csv resolve_date timestamp_str user csv_file d = Inr d' \<and>
                 sessions d' = sessions d @
                   [\<lparr>session_id = gid, session_user_id = user_id user,
                     session_date = start\<rparr>])"
proof -
  have g: "gid = gen_session_id ts"
    by (simp add: assms(4) gen_session_id_def)
  have len: "length gid \<le> 12"
    unfolding g by (rule gen_session_id_length)
  show ?thesis
  proof (cases "gid \<in> session_id ` set (sessions d)")
    case True
    then have "gen_session_id ts \<in> session_id ` set (sessions d)"
      by (simp add: g)
    from process_csv_existing[where read_csv = read_csv and resolve_date = resolve_date
        and timestamp_str = timestamp_str and user = user, OF assms(1-3) this]
    have "process_csv read_csv resolve_date timestamp_str user csv_file d = Inr d" .
    with True len show ?thesis
      by (simp add: ODBSession_id_length_def)
  next
    case False
    then have "gen_session_id ts \<notin> session_id ` set (sessions d)"
      by (simp add: g)
    from process_csv_new_session[where read_csv = read_csv and resolve_date = resolve_date
        and timestamp_str = timestamp_str and user = user, OF assms(1-3) this]
    have "\<exists>d'. process_csv read_csv resolve_date timestamp_str user csv_file d = Inr d' \<and>
                 sessions d' = sessions d @
                   [\<lparr>session_id = gid, session_user_id = user_id user,
                     session_date = start\<rparr>]"
      by (simp add: Let_def csv_state_fields g)
    with False len show ?thesis
      by (simp add: ODBSession_id_length_def)
  qed
qed

theorem process_csv_session_id_derivation_witness:
  "''160000000012'' = take 12 (filter (\<lambda>c. c \<noteq> CHR ''.'') ''1600000000.125'') \<and>
   length ''160000000012'' \<le> ODBSession_id_length \<and>
   (\<exists>d'. process_csv Inr ex_resolve_date ex_timestamp_str ex_user [ex_row1, ex_row2] ex_db =
            Inr d' \<and>
          sessions d' =
            [\<lparr>session_id = ''160000000012'', session_user_id = 7,
              session_date = 1600000000125000\<rparr>]) \<and>
   process_csv Inr ex_resolve_date ex_timestamp_str ex_user [ex_row1, ex_row2] ex_db_uploaded =
     Inr ex_db_uploaded"
proof -
  have h: "''160000000012'' = take 12 (filter (\<lambda>c. c \<noteq> CHR ''.'') ''1600000000.125'')"
    by simp
  from process_csv_session_id_derivation [where read_csv = Inr and user = ex_user and d = ex_db
      and resolve_date = ex_resolve_date and timestamp_str = ex_timestamp_str,
      OF ex_upload_facts(1,2,3) h]
  have a: "length ''160000000012'' \<le> ODBSession_id_length"
    and b: "\<exists>d'. process_csv Inr ex_resolve_date ex_timestamp_str ex_user [ex_row1, ex_row2]
                   ex_db = Inr d' \<and>
          sessions d' =
            [\<lparr>session_id = ''160000000012'', session_user_id = 7,
              session_date = 1600000000125000\<rparr>]"
    by (simp_all add: ex_db_def ex_user_def)
  from process_csv_session_id_derivation [where read_csv = Inr and user = ex_user and d = ex_db_uploaded
      and resolve_date = ex_resolve_date and timestamp_str = ex_timestamp_str, OF ex_upload_facts(1,2,3) h]
  have c: "process_csv Inr ex_resolve_date ex_timestamp_str ex_user [ex_row1, ex_row2]
             ex_db_uploaded = Inr ex_db_uploaded"
    by (simp add: ex_db_uploaded_def)
  from h a b c show ?thesis by blast
qed

section \<open>Login\<close>



section \<open>Live requests\<close>

lemma has_full_name_keys_iff:
  "has_full_name_keys C data \<longleftrightarrow>
     (\<exists>k\<in>set (dict_keys data). re_match_prefix (FULL_NAME C) k \<and> k \<noteq> [])"
  by (auto simp: has_full_name_keys_def any_str_def list_ex_iff)

lemma logger_info_event:
  "''event'' \<in> set (dict_keys kw) \<Longrightarrow> logger_info emit event kw = Inl TypeError"
  by (simp add: logger_info_def)

lemma process_sensor_params_event:
  "''event'' \<in> set (dict_keys data) \<Longrightarrow>
   process_sensor_params C emit first now utcnow data d = Inl TypeError"
  by (simp add: process_sensor_params_def logger_info_event)

lemma process_sensor_params_resolved:
  assumes "logger_info emit ''Receiving sensor data from TORQUE'' data = Inr ()"
      and "\<not> has_full_name_keys C data"
      and "resolve_user first d data = Inr u"
      and "dict_get data ''session'' = Some token"
  shows "process_sensor_params C emit first now utcnow data d =
           Inr (sensor_steps C now data (fst (get_or_create (user_id u) token utcnow d))
                  (snd (get_or_create (user_id u) token utcnow d)))"
proof -
  have tok: "dict_getitem data ''session'' = Inr token"
    using assms(4) by (simp add: dict_get_def dict_getitem_def)
  show ?thesis
    unfolding process_sensor_params_def sensor_steps_def
    by (simp add: assms(1,2,3) tok Let_def split_beta dict_getitem_key)
qed

lemma sensor_steps_sessions: "sessions (sensor_steps C now data s d0) = sessions d0"
  by (simp add: sensor_steps_def Let_def register_gps_reading_def register_fuel_level_def
      register_load_def register_rpm_def)

lemma sensor_steps_gps:
  "gps_readings (sensor_steps C now data s d0) =
     (if GPS_LATITUDE C \<in> set (dict_keys data) \<and> GPS_LONGITUDE C \<in> set (dict_keys data)
      then gps_readings d0 @
             [\<lparr>gps_session_id = session_id s, gps_lat = the (map_of data (GPS_LATITUDE C)),
               gps_lng = the (map_of data (GPS_LONGITUDE C)), gps_date = now\<rparr>]
      else gps_readings d0)"
  by (simp add: sensor_steps_def Let_def register_gps_reading_def register_fuel_level_def
      register_load_def register_rpm_def)

lemma sensor_steps_none:
  assumes "GPS_LATITUDE C \<notin> set (dict_keys data) \<or> GPS_LONGITUDE C \<notin> set (dict_keys data)"
      and "FUEL_LEVEL C \<notin> set (dict_keys data)"
      and "ENGINE_LOAD C \<notin> set (dict_keys data)"
      and "ENGINE_RPM C \<notin> set (dict_keys data)"
  shows "sensor_steps C now data s d0 = d0"
  using assms by (auto simp: sensor_steps_def Let_def)

lemma get_or_create_sessions:
  "fst (get_or_create uid token t d) \<in> set (sessions (snd (get_or_create uid token t d)))"
  by (auto simp: get_or_create_def Let_def db_add_session_def dest: find_Some_holds
      split: option.splits)

lemma get_or_create_key:
  "session_user_id (fst (get_or_create uid token t d)) = uid \<and>
   session_id (fst (get_or_create uid token t d)) = token"
  by (auto simp: get_or_create_def Let_def dest: find_Some_holds split: option.splits)

lemma get_or_create_frame:
  "users (snd (get_or_create uid token t d)) = users d"
  "gps_readings (snd (get_or_create uid token t d)) = gps_readings d"
  "engine_load_readings (snd (get_or_create uid token t d)) = engine_load_readings d"
  "engine_rpm_readings (snd (get_or_create uid token t d)) = engine_rpm_readings d"
  "fuel_level_readings (snd (get_or_create uid token t d)) = fuel_level_readings d"
  "speed_readings (snd (get_or_create uid token t d)) = speed_readings d"
  by (simp_all add: get_or_create_def Let_def db_add_session_def split: option.splits)

lemma ex_first_spec: "first_spec ex_first rows"
  by (simp add: first_spec_def ex_first_def)

lemma ex_resolve_ada:
  "map_of data ''eml'' = Some ''ada@example.org'' \<Longrightarrow>
   resolve_user ex_first ex_db data = Inr ex_user"
  by (simp add: resolve_user_def dict_get_def query_user_by_email_def ex_db_def ex_user_def
      ex_first_def)

lemma ex_request_facts:
  "\<not> has_full_name_keys ex_constants ex_gps_request"
  "\<not> has_full_name_keys ex_constants ex_bare_request"
  "\<not> has_full_name_keys ex_constants ex_no_session_request"
  "resolve_user ex_first ex_db ex_gps_request = Inr ex_user"
  "resolve_user ex_first ex_db ex_bare_request = Inr ex_user"
  "resolve_user ex_first ex_db ex_no_session_request = Inr ex_user"
  "dict_get ex_gps_request ''session'' = Some ''1600000000125''"
  "dict_get ex_bare_request ''session'' = Some ''1600000000125''"
  "logger_info ex_emit ''Receiving sensor data from TORQUE'' ex_gps_request = Inr ()"
  "logger_info ex_emit ''Receiving sensor data from TORQUE'' ex_bare_request = Inr ()"
  "logger_info ex_emit ''Receiving sensor data from TORQUE'' ex_no_session_request = Inr ()"
  by (simp_all add: has_full_name_keys_def any_str_def dict_keys_def re_match_prefix_def
      ex_constants_def ex_gps_request_def ex_bare_request_def ex_no_session_request_def
      ex_resolve_ada dict_get_def logger_info_def ex_emit_def)

lemma ev_request_facts:
  "\<not> has_full_name_keys ex_constants ev_gps_request"
  "\<not> has_full_name_keys ex_constants ev_no_session_request"
  "\<not> has_full_name_keys ex_constants ev_bare_request"
  "resolve_user ex_first ex_db ev_gps_request = Inr ex_user"
  "resolve_user ex_first ex_db ev_no_session_request = Inr ex_user"
  "resolve_user ex_first ex_db ev_bare_request = Inr ex_user"
  "dict_get ev_gps_request ''session'' = Some ''1600000000125''"
  "dict_get ev_bare_request ''session'' = Some ''1600000000125''"
  by (simp_all add: has_full_name_keys_def any_str_def dict_keys_def re_match_prefix_def
      ex_constants_def ev_gps_request_def ev_bare_request_def ev_no_session_request_def
      ex_resolve_ada dict_get_def)

subsection \<open>Requests on which the entry log call returns\<close>

text \<open>
  The four facts of this subsection describe \<open>process_sensor_params\<close> on the requests that
  on which the log call of its first line returns; such a request has no key named
  \<^verbatim>\<open>event\<close>.
\<close>

text \<open>
  With a non-empty full-name prefix, a request in which some key starts with that prefix
  is answered at once with the store as it was; no user and no session is looked up.
\<close>

lemma metadata_only_when_logged:
  assumes "logger_info emit ''Receiving sensor data from TORQUE'' data = Inr ()"
      and "FULL_NAME C \<noteq> []"
      and "k \<in> set (dict_keys data)"
      and "re_match_prefix (FULL_NAME C) k"
  shows "process_sensor_params C emit first now utcnow data d = Inr d"
proof -
  from assms(2,4) have "k \<noteq> []"
    by (auto simp: re_match_prefix_def)
  with assms(3,4) have "has_full_name_keys C data"
    unfolding has_full_name_keys_iff by blast
  then show ?thesis
    by (simp add: process_sensor_params_def assms(1))
qed

text \<open>
  With both GPS keys present the GPS table grows by exactly one row, which references the
  resolved session; with either key absent the GPS table is unchanged. Both ways the call
  returns normally.
\<close>

lemma gps_when_logged:
  assumes "logger_info emit ''Receiving sensor data from TORQUE'' data = Inr ()"
      and "\<not> has_full_name_keys C data"
      and "resolve_user first d data = Inr u"
      and "dict_get data ''session'' = Some token"
      and "s = fst (get_or_create (user_id u) token utcnow d)"
  shows "(GPS_LATITUDE C \<in> set (dict_keys data) \<and> GPS_LONGITUDE C \<in> set (dict_keys data) \<longrightarrow>
            (\<exists>d' lat lng. process_sensor_params C emit first now utcnow data d = Inr d' \<and>
               dict_get data (GPS_LATITUDE C) = Some lat \<and>
               dict_get data (GPS_LONGITUDE C) = Some lng \<and>
               s \<in> set (sessions d') \<and>
               gps_readings d' = gps_readings d @
                 [\<lparr>gps_session_id = session_id s, gps_lat = lat, gps_lng = lng,
                   gps_date = now\<rparr>]))
       \<and> (GPS_LATITUDE C \<notin> set (dict_keys data) \<or> GPS_LONGITUDE C \<notin> set (dict_keys data) \<longrightarrow>
            (\<exists>d'. process_sensor_params C emit first now utcnow data d = Inr d' \<and>
               gps_readings d' = gps_readings d))"
proof -
  note r = process_sensor_params_resolved[OF assms(1,2,3,4), of now utcnow]
  have mem: "s \<in> set (sessions (snd (get_or_create (user_id u) token utcnow d)))"
    unfolding assms(5) by (rule get_or_create_sessions)
  show ?thesis
  proof (intro conjI impI)
    assume k: "GPS_LATITUDE C \<in> set (dict_keys data) \<and> GPS_LONGITUDE C \<in> set (dict_keys data)"
    then obtain lat lng where lat: "map_of data (GPS_LATITUDE C) = Some lat"
      and lng: "map_of data (GPS_LONGITUDE C) = Some lng"
      by (auto simp: in_dict_keys_iff)
    show "\<exists>d' lat lng. process_sensor_params C emit first now utcnow data d = Inr d' \<and>
               dict_get data (GPS_LATITUDE C) = Some lat \<and>
               dict_get data (GPS_LONGITUDE C) = Some lng \<and>
               s \<in> set (sessions d') \<and>
               gps_readings d' = gps_readings d @
                 [\<lparr>gps_session_id = session_id s, gps_lat = lat, gps_lng = lng,
                   gps_date = now\<rparr>]"
      using k mem lat lng
      by (simp add: r sensor_steps_gps sensor_steps_sessions get_or_create_frame dict_get_def
          assms(5))
  next
    assume "GPS_LATITUDE C \<notin> set (dict_keys data) \<or> GPS_LONGITUDE C \<notin> set (dict_keys data)"
    then show "\<exists>d'. process_sensor_params C emit first now utcnow data d = Inr d' \<and>
               gps_readings d' = gps_readings d"
      by (auto simp: r sensor_steps_gps get_or_create_frame)
  qed
qed

text \<open>
  Without a \<^verbatim>\<open>session\<close> key the call fails with the KeyError of the item lookup.
\<close>

lemma missing_session_when_logged:
  assumes "logger_info emit ''Receiving sensor data from TORQUE'' data = Inr ()"
      and "\<not> has_full_name_keys C data"
      and "resolve_user first d data = Inr u"
      and "''session'' \<notin> set (dict_keys data)"
  shows "process_sensor_params C emit first now utcnow data d = Inl (KeyError ''session'')"
proof -
  from assms(4) have "dict_getitem data ''session'' = Inl (KeyError ''session'')"
    by (simp add: in_dict_keys_iff dict_getitem_def)
  then show ?thesis
    by (simp add: process_sensor_params_def assms(1,2,3))
qed

text \<open>
  When no sensor block applies, the call returns exactly the store that get-or-create
  leaves: the session row is there and every reading table is as it was.
\<close>

lemma no_sensor_keys_when_logged:
  assumes "logger_info emit ''Receiving sensor data from TORQUE'' data = Inr ()"
      and "\<not> has_full_name_keys C data"
      and "resolve_user first d data = Inr u"
      and "dict_get data ''session'' = Some token"
      and "GPS_LATITUDE C \<notin> set (dict_keys data) \<or> GPS_LONGITUDE C \<notin> set (dict_keys data)"
      and "FUEL_LEVEL C \<notin> set (dict_keys data)"
      and "ENGINE_LOAD C \<notin> set (dict_keys data)"
      and "ENGINE_RPM C \<notin> set (dict_keys data)"
  shows "\<exists>s d'. get_or_create (user_id u) token utcnow d = (s, d') \<and>
           process_sensor_params C emit first now utcnow data d = Inr d' \<and>
           s \<in> set (sessions d') \<and> session_user_id s = user_id u \<and> session_id s = token \<and>
           gps_readings d' = gps_readings d \<and>
           fuel_level_readings d' = fuel_level_readings d \<and>
           engine_load_readings d' = engine_load_readings d \<and>
           engine_rpm_readings d' = engine_rpm_readings d \<and>
           speed_readings d' = speed_readings d"
proof -
  have "sensor_steps C now data (fst (get_or_create (user_id u) token utcnow d))
          (snd (get_or_create (user_id u) token utcnow d)) =
        snd (get_or_create (user_id u) token utcnow d)"
    using assms(5-8) by (rule sensor_steps_none)
  then have "process_sensor_params C emit first now utcnow data d =
        Inr (snd (get_or_create (user_id u) token utcnow d))"
    using process_sensor_params_resolved[OF assms(1,2,3,4), of now utcnow] by simp
  then show ?thesis
    using get_or_create_sessions[of "user_id u" token utcnow d]
      get_or_create_key[of "user_id u" token utcnow d]
    by (intro exI[of _ "fst (get_or_create (user_id u) token utcnow d)"]
        exI[of _ "snd (get_or_create (user_id u) token utcnow d)"])
       (simp add: get_or_create_frame)
qed

lemma ex_requests_when_logged:
  "process_sensor_params ex_constants ex_emit ex_first 1600000000125000 1600000000125001
     ex_metadata_request ex_db = Inr ex_db"
  "process_sensor_params ex_constants ex_emit ex_first 1600000000125000 1600000000125001
     ex_no_session_request ex_db = Inl (KeyError ''session'')"
  "\<exists>d'. process_sensor_params ex_constants ex_emit ex_first 1600000000125000 1600000000125001
           ex_gps_request ex_db = Inr d' \<and>
         gps_readings d' =
           [\<lparr>gps_session_id = ''1600000000125'', gps_lat = ''-5.83'', gps_lng = ''-35.20'',
             gps_date = 1600000000125000\<rparr>]"
  "\<exists>d'. process_sensor_params ex_constants ex_emit ex_first 1600000000125000 1600000000125001
           ex_bare_request ex_db = Inr d' \<and>
         map session_id (sessions d') = [''1600000000125''] \<and> gps_readings d' = []"
proof -
  have m: "logger_info ex_emit ''Receiving sensor data from TORQUE'' ex_metadata_request = Inr ()"
    "FULL_NAME ex_constants \<noteq> []"
    "''userFullName0d'' \<in> set (dict_keys ex_metadata_request)"
    "re_match_prefix (FULL_NAME ex_constants) ''userFullName0d''"
    by (simp_all add: logger_info_def ex_emit_def dict_keys_def ex_metadata_request_def
        ex_constants_def re_match_prefix_def)
  show "process_sensor_params ex_constants ex_emit ex_first 1600000000125000 1600000000125001
     ex_metadata_request ex_db = Inr ex_db"
    by (rule metadata_only_when_logged [OF m])
  have n: "''session'' \<notin> set (dict_keys ex_no_session_request)"
    by (simp add: dict_keys_def ex_no_session_request_def)
  show "process_sensor_params ex_constants ex_emit ex_first 1600000000125000 1600000000125001
     ex_no_session_request ex_db = Inl (KeyError ''session'')"
    by (rule missing_session_when_logged [OF ex_request_facts(11,3,6) n])
  have g: "get_or_create (user_id ex_user) ''1600000000125'' 1600000000125001 ex_db =
     (\<lparr>session_id = ''1600000000125'', session_user_id = 7,
       session_date = 1600000000125001\<rparr>,
      ex_db\<lparr>sessions := [\<lparr>session_id = ''1600000000125'', session_user_id = 7,
                            session_date = 1600000000125001\<rparr>],
            journal := [Add Sessions 1]\<rparr>)"
    by (simp add: get_or_create_def db_add_session_def ex_db_def ex_user_def Let_def)
  have e: "gps_readings ex_db = []"
    by (simp add: ex_db_def)
  have k: "GPS_LATITUDE ex_constants \<in> set (dict_keys ex_gps_request)"
    "GPS_LONGITUDE ex_constants \<in> set (dict_keys ex_gps_request)"
    "dict_get ex_gps_request (GPS_LATITUDE ex_constants) = Some ''-5.83''"
    "dict_get ex_gps_request (GPS_LONGITUDE ex_constants) = Some ''-35.20''"
    by (simp_all add: ex_constants_def dict_keys_def dict_get_def ex_gps_request_def)
  from gps_when_logged [where now = 1600000000125000 and utcnow = 1600000000125001,
      OF ex_request_facts(9,1,4,7) refl, THEN conjunct1] k
  show "\<exists>d'. process_sensor_params ex_constants ex_emit ex_first 1600000000125000 1600000000125001
           ex_gps_request ex_db = Inr d' \<and>
         gps_readings d' =
           [\<lparr>gps_session_id = ''1600000000125'', gps_lat = ''-5.83'', gps_lng = ''-35.20'',
             gps_date = 1600000000125000\<rparr>]"
    by (auto simp: get_or_create_key e)
  have b: "GPS_LATITUDE ex_constants \<notin> set (dict_keys ex_bare_request) \<or>
           GPS_LONGITUDE ex_constants \<notin> set (dict_keys ex_bare_request)"
    "FUEL_LEVEL ex_constants \<notin> set (dict_keys ex_bare_request)"
    "ENGINE_LOAD ex_constants \<notin> set (dict_keys ex_bare_request)"
    "ENGINE_RPM ex_constants \<notin> set (dict_keys ex_bare_request)"
    by (simp_all add: ex_constants_def dict_keys_def ex_bare_request_def)
  from no_sensor_keys_when_logged [where now = 1600000000125000
      and utcnow = 1600000000125001, OF ex_request_facts(10,2,5,8) b]
  show "\<exists>d'. process_sensor_params ex_constants ex_emit ex_first 1600000000125000 1600000000125001
           ex_bare_request ex_db = Inr d' \<and>
         map session_id (sessions d') = [''1600000000125''] \<and> gps_readings d' = []"
    by (clarsimp simp: g e)
qed

subsection \<open>Requests with a key named event\<close>

text \<open>
  C5. A request in which one key starts with the full-name prefix and another key is
  named \<^verbatim>\<open>event\<close>: the log call of the first line raises TypeError, so
  \<open>process_sensor_params\<close> does not return, although the request is a metadata request.
\<close>

theorem process_sensor_params_metadata_event_key:
  "FULL_NAME ex_constants \<noteq> [] \<and>
   ''userFullName0d'' \<in> set (dict_keys ev_metadata_request) \<and>
   re_match_prefix (FULL_NAME ex_constants) ''userFullName0d'' \<and>
   process_sensor_params ex_constants ex_emit ex_first 1600000000125000 1600000000125001
     ev_metadata_request ex_db = Inl TypeError \<and>
   process_sensor_params ex_constants ex_emit ex_first 1600000000125000 1600000000125001
     ev_metadata_request ex_db \<noteq> Inr ex_db"
proof -
  have k: "''event'' \<in> set (dict_keys ev_metadata_request)"
    "''userFullName0d'' \<in> set (dict_keys ev_metadata_request)"
    by (simp_all add: dict_keys_def ev_metadata_request_def)
  have p: "FULL_NAME ex_constants \<noteq> []"
    "re_match_prefix (FULL_NAME ex_constants) ''userFullName0d''"
    by (simp_all add: ex_constants_def re_match_prefix_def)
  from k p process_sensor_params_event [OF k(1)] show ?thesis
    by simp
qed

text \<open>
  C7. A request that is not metadata-only, whose user resolves, which carries a session
  token and both GPS keys, and one more key named \<^verbatim>\<open>event\<close>: the log call of the
  first line raises TypeError, so \<open>process_sensor_params\<close> stores no GPS reading.
\<close>

theorem process_sensor_params_gps_event_key:
  "\<not> has_full_name_keys ex_constants ev_gps_request \<and>
   resolve_user ex_first ex_db ev_gps_request = Inr ex_user \<and>
   dict_get ev_gps_request ''session'' = Some ''1600000000125'' \<and>
   GPS_LATITUDE ex_constants \<in> set (dict_keys ev_gps_request) \<and>
   GPS_LONGITUDE ex_constants \<in> set (dict_keys ev_gps_request) \<and>
   process_sensor_params ex_constants ex_emit ex_first 1600000000125000 1600000000125001
     ev_gps_request ex_db = Inl TypeError"
proof -
  have k: "''event'' \<in> set (dict_keys ev_gps_request)"
    "GPS_LATITUDE ex_constants \<in> set (dict_keys ev_gps_request)"
    "GPS_LONGITUDE ex_constants \<in> set (dict_keys ev_gps_request)"
    by (simp_all add: dict_keys_def ev_gps_request_def ex_constants_def)
  from k ev_request_facts(1,4,7) process_sensor_params_event [OF k(1)] show ?thesis
    by simp
qed

text \<open>
  C9. A request that is not metadata-only, whose user resolves, which has no
  \<^verbatim>\<open>session\<close> key but has a key named \<^verbatim>\<open>event\<close>: \<open>process_sensor_params\<close> fails
  with the TypeError of the log call of its first line, not with the KeyError of the item
  lookup \<^verbatim>\<open>data['session']\<close>.
\<close>

theorem process_sensor_params_missing_session_event_key:
  "\<not> has_full_name_keys ex_constants ev_no_session_request \<and>
   resolve_user ex_first ex_db ev_no_session_request = Inr ex_user \<and>
   ''session'' \<notin> set (dict_keys ev_no_session_request) \<and>
   process_sensor_params ex_constants ex_emit ex_first 1600000000125000 1600000000125001
     ev_no_session_request ex_db = Inl TypeError \<and>
   process_sensor_params ex_constants ex_emit ex_first 1600000000125000 1600000000125001
     ev_no_session_request ex_db \<noteq> Inl (KeyError ''session'')"
proof -
  have k: "''event'' \<in> set (dict_keys ev_no_session_request)"
    "''session'' \<notin> set (dict_keys ev_no_session_request)"
    by (simp_all add: dict_keys_def ev_no_session_request_def)
  from k ev_request_facts(2,5) process_sensor_params_event [OF k(1)] show ?thesis
    by simp
qed

text \<open>
  C10. A request that is not metadata-only, whose user resolves, which carries a session
  token, no sensor key, and a key named \<^verbatim>\<open>event\<close>: the log call of the first line
  raises TypeError before get-or-create is reached, so \<open>process_sensor_params\<close> neither
  returns nor leaves a session row.
\<close>

theorem process_sensor_params_no_sensor_keys_event_key:
  "\<not> has_full_name_keys ex_constants ev_bare_request \<and>
   resolve_user ex_first ex_db ev_bare_request = Inr ex_user \<and>
   dict_get ev_bare_request ''session'' = Some ''1600000000125'' \<and>
   GPS_LATITUDE ex_constants \<notin> set (dict_keys ev_bare_request) \<and>
   GPS_LONGITUDE ex_constants \<notin> set (dict_keys ev_bare_request) \<and>
   FUEL_LEVEL ex_constants \<notin> set (dict_keys ev_bare_request) \<and>
   ENGINE_LOAD ex_constants \<notin> set (dict_keys ev_bare_request) \<and>
   ENGINE_RPM ex_constants \<notin> set (dict_keys ev_bare_request) \<and>
   process_sensor_params ex_constants ex_emit ex_first 1600000000125000 1600000000125001
     ev_bare_request ex_db = Inl TypeError"
proof -
  have k: "''event'' \<in> set (dict_keys ev_bare_request)"
    "GPS_LATITUDE ex_constants \<notin> set (dict_keys ev_bare_request)"
    "GPS_LONGITUDE ex_constants \<notin> set (dict_keys ev_bare_request)"
    "FUEL_LEVEL ex_constants \<notin> set (dict_keys ev_bare_request)"
    "ENGINE_LOAD ex_constants \<notin> set (dict_keys ev_bare_request)"
    "ENGINE_RPM ex_constants \<notin> set (dict_keys ev_bare_request)"
    by (simp_all add: dict_keys_def ev_bare_request_def ex_constants_def)
  from k ev_request_facts(3,6,8) process_sensor_params_event [OF k(1)] show ?thesis
    by simp
qed

subsection \<open>Session and user resolution\<close>



text \<open>
  C8. On a store in which no user has an empty email, and whatever row \<^verbatim>\<open>.first()\<close>
  picks from a query result: user resolution raises the controller's error "User email
  not found" when the request has no email key; it raises an error of the controller's
  type, with a message, when no stored user has the given email; and when some stored
  user has the given email it returns a stored user record with that email.
\<close>

theorem resolve_user_outcomes:
  assumes "\<forall>u\<in>set (users d). user_email u \<noteq> []"
      and "\<forall>rows. first_spec first rows"
  shows "(dict_get data ''eml'' = None \<longrightarrow>
            resolve_user first d data = Inl (ODBControllerError ''User email not found''))
       \<and> (dict_get data ''eml'' = Some e \<and> (\<forall>u\<in>set (users d). user_email u \<noteq> e) \<longrightarrow>
            resolve_user first d data =
              Inl (ODBControllerError
                     (if e = [] then ''User email not found'' else ''User does not exist'')))
       \<and> (dict_get data ''eml'' = Some e \<and> (\<exists>u\<in>set (users d). user_email u = e) \<longrightarrow>
            (\<exists>u. resolve_user first d data = Inr u \<and> u \<in> set (users d) \<and> user_email u = e))"
proof -
  define rows where "rows = filter (\<lambda>u. user_email u = e) (users d)"
  have sp: "case first rows of None \<Rightarrow> rows = [] | Some r \<Rightarrow> r \<in> set rows"
    using assms(2) by (simp add: first_spec_def)
  have 1: "resolve_user first d data = Inl (ODBControllerError ''User email not found'')"
    if "dict_get data ''eml'' = None"
    using that by (simp add: resolve_user_def)
  have 2: "resolve_user first d data =
              Inl (ODBControllerError
                     (if e = [] then ''User email not found'' else ''User does not exist''))"
    if a: "dict_get data ''eml'' = Some e \<and> (\<forall>u\<in>set (users d). user_email u \<noteq> e)"
  proof (cases "e = []")
    case True
    with a show ?thesis by (simp add: resolve_user_def)
  next
    case False
    from a have "rows = []"
      by (simp add: rows_def filter_empty_conv)
    with sp have "first rows = None"
      by (cases "first rows") simp_all
    with a False show ?thesis
      by (simp add: resolve_user_def query_user_by_email_def rows_def)
  qed
  have 3: "\<exists>u. resolve_user first d data = Inr u \<and> u \<in> set (users d) \<and> user_email u = e"
    if a: "dict_get data ''eml'' = Some e \<and> (\<exists>u\<in>set (users d). user_email u = e)"
  proof -
    from a assms(1) have ne: "e \<noteq> []"
      by auto
    from a have "rows \<noteq> []"
      by (simp add: rows_def filter_empty_conv)
    with sp obtain r where r: "first rows = Some r" "r \<in> set rows"
      by (cases "first rows") simp_all
    from r(2) have "r \<in> set (users d)" "user_email r = e"
      by (simp_all add: rows_def)
    moreover from a ne r(1) have "resolve_user first d data = Inr r"
      by (simp add: resolve_user_def query_user_by_email_def rows_def)
    ultimately show ?thesis by blast
  qed
  from 1 2 3 show ?thesis by blast
qed

theorem resolve_user_outcomes_witness:
  "resolve_user ex_first ex_db [(''session'', ''1600000000125'')] =
     Inl (ODBControllerError ''User email not found'') \<and>
   resolve_user ex_first ex_db [(''eml'', ''eve@example.org'')] =
     Inl (ODBControllerError ''User does not exist'') \<and>
   resolve_user ex_first ex_db [(''eml'', ''ada@example.org'')] = Inr ex_user"
proof -
  have h: "\<forall>u\<in>set (users ex_db). user_email u \<noteq> []"
    by (simp add: ex_db_def ex_user_def)
  have f: "\<forall>rows. first_spec ex_first rows"
    by (simp add: ex_first_spec)
  have 1: "resolve_user ex_first ex_db [(''session'', ''1600000000125'')] =
     Inl (ODBControllerError ''User email not found'')"
    using resolve_user_outcomes [OF h f, of "[(''session'', ''1600000000125'')]",
        THEN conjunct1]
    by (simp add: dict_get_def)
  have 2: "resolve_user ex_first ex_db [(''eml'', ''eve@example.org'')] =
     Inl (ODBControllerError ''User does not exist'')"
    using resolve_user_outcomes [OF h f, of "[(''eml'', ''eve@example.org'')]"
        "''eve@example.org''", THEN conjunct2, THEN conjunct1]
    by (simp add: dict_get_def ex_db_def ex_user_def)
  have 3: "resolve_user ex_first ex_db [(''eml'', ''ada@example.org'')] = Inr ex_user"
    using resolve_user_outcomes [OF h f, of "[(''eml'', ''ada@example.org'')]"
        "''ada@example.org''", THEN conjunct2, THEN conjunct2]
    by (simp add: dict_get_def ex_db_def ex_user_def)
  from 1 2 3 show ?thesis by (intro conjI)
qed


end
